theory Spec2Isabelle
  imports Complex_Main "HOL-Library.Monad_Syntax"
begin

section \<open>Values of the graph-ts library\<close>

text \<open>
  The source computes with the library types \<^verbatim>\<open>BigInt\<close> and \<^verbatim>\<open>BigDecimal\<close>.
  \<^verbatim>\<open>BigInt\<close> is an unbounded integer and is modelled by \<open>int\<close>. \<^verbatim>\<open>BigDecimal\<close> is
  the arbitrary-precision decimal of the specification; \<^verbatim>\<open>plus\<close>, \<^verbatim>\<open>minus\<close>,
  \<^verbatim>\<open>times\<close>, \<^verbatim>\<open>neg\<close>, \<^verbatim>\<open>gt\<close> and \<^verbatim>\<open>equals\<close> are the exact operations on
  \<open>rat\<close>. \<^verbatim>\<open>div\<close> aborts the handler on a zero divisor, so it returns an option.
\<close>

type_synonym BigInt = int
type_synonym BigDecimal = rat

definition bd_div :: "BigDecimal \<Rightarrow> BigDecimal \<Rightarrow> BigDecimal option" where
  "bd_div a b = (if b = 0 then None else Some (a / b))"

text \<open>\<^verbatim>\<open>ethereum.Block\<close>: the two fields the source reads.\<close>

record Block =
  number :: BigInt
  timestamp :: BigInt

section \<open>Helper modules\<close>

text \<open>Modelled from the spec: the constants of \<^verbatim>\<open>helpers/constants\<close> are not among the
  sources. Their names and the specification (\<open>maximumDelegation = ownStake \<times> 16\<close>,
  numeric fields initialised to zero, share count to one) fix their values.
\<close>

definition zeroBD :: BigDecimal where "zeroBD = 0"
definition sixteenBD :: BigDecimal where "sixteenBD = 16"
definition oneBI :: BigInt where "oneBI = 1"
definition zeroBI :: BigInt where "zeroBI = 0"

text \<open>
  The converters \<^verbatim>\<open>tokenAmountToDecimal\<close> (\<^verbatim>\<open>helpers/token\<close>) and
  \<^verbatim>\<open>feeCutToDecimalRatio\<close> (\<^verbatim>\<open>helpers/feeCut\<close>) and the period boundary that keys a
  snapshot are not among the sources either. They are parameters of the model: every
  function below takes them in a record and every theorem holds for all of them.
\<close>

record helpers =
  tokenAmountToDecimal :: "BigInt \<Rightarrow> BigDecimal"
  feeCutToDecimalRatio :: "BigInt \<Rightarrow> BigDecimal"
  periodOf :: "BigInt \<Rightarrow> int"

section \<open>Entities and the store\<close>

text \<open>
  The generated schema is not among the sources. The fields are those the source
  reads and writes. A field that the constructor of a new entity leaves unset, or that
  the source checks against or assigns \<^verbatim>\<open>null\<close>, is an option.
\<close>

type_synonym snapshot_key = "string \<times> int"

record IndexerEntity =
  entity_id :: string
  createdAtTimestamp :: BigInt
  ownStake :: BigDecimal
  delegatedStake :: BigDecimal
  allocatedStake :: BigDecimal
  maximumDelegation :: BigDecimal
  allocationRatio :: BigDecimal
  delegationRatio :: BigDecimal
  isOverDelegated :: bool
  delegationPoolShares :: "BigInt option"
  monthlyDelegatorRewardRate :: BigDecimal
  indexingRewardCutRatio :: "BigDecimal option"
  queryFeeCutRatio :: "BigDecimal option"
  delegatorParameterCooldownBlock :: "BigInt option"
  lastSnapshot :: "snapshot_key option"

text \<open>Modelled from the spec: the class \<^verbatim>\<open>IndexerSnapshot\<close> is not among the sources.
  A snapshot belongs to one indexer and one accounting period, is created on the first
  access within the period, and accumulates the change of own stake, the change of
  delegated stake, the rewards routed to the delegation pool and the number of
  parameter changes. Its identifier is kept as the pair it is derived from.
\<close>

record IndexerSnapshotEntity =
  snap_ownStakeDelta :: BigDecimal
  snap_delegatedStakeDelta :: BigDecimal
  snap_delegationPoolIndexingRewards :: BigDecimal
  snap_parametersChangesCount :: int

text \<open>Modelled from the spec: the class \<^verbatim>\<open>IndexerParameterUpdate\<close> is not among the
  sources. It appends one immutable record per parameter change.
\<close>

record IndexerParameterUpdateEntity =
  pu_indexer :: string
  pu_effectiveBlock :: BigInt
  pu_indexingRewardCutRatio :: BigDecimal
  pu_queryFeeCutRatio :: BigDecimal

record DelegatorEntity =
  delegator_id :: string

record DelegatedStakeEntity =
  ds_id :: string
  ds_indexer :: string
  ds_delegator :: string
  ds_createdAtTimestamp :: BigInt

text \<open>The persistence layer: \<^verbatim>\<open>load\<close> reads a map, \<^verbatim>\<open>save\<close> overwrites a key.\<close>

record Store =
  indexerStore :: "string \<rightharpoonup> IndexerEntity"
  snapshotStore :: "snapshot_key \<rightharpoonup> IndexerSnapshotEntity"
  parameterUpdateStore :: "IndexerParameterUpdateEntity list"
  delegatedStakeStore :: "string \<rightharpoonup> DelegatedStakeEntity"

definition emptyStore :: Store where
  "emptyStore = \<lparr>indexerStore = Map.empty, snapshotStore = Map.empty,
     parameterUpdateStore = [], delegatedStakeStore = Map.empty\<rparr>"

definition IndexerEntity_save :: "IndexerEntity \<Rightarrow> Store \<Rightarrow> Store" where
  "IndexerEntity_save e st = st\<lparr>indexerStore := (indexerStore st)(entity_id e \<mapsto> e)\<rparr>"

section \<open>The snapshot ledger and the parameter log\<close>

text \<open>Modelled from the spec: the methods of \<^verbatim>\<open>IndexerSnapshot\<close> and of
  \<^verbatim>\<open>IndexerParameterUpdate\<close> that the class \<^verbatim>\<open>Indexer\<close> calls. A snapshot is looked up or
  created under the identifier of the indexer and the period of the block; each method
  adds to one of its aggregates; the rewards of the previous month are those of the
  snapshot of the period before, zero when there is none.
\<close>

definition newSnapshot :: IndexerSnapshotEntity where
  "newSnapshot = \<lparr>snap_ownStakeDelta = 0, snap_delegatedStakeDelta = 0,
     snap_delegationPoolIndexingRewards = 0, snap_parametersChangesCount = 0\<rparr>"

definition IndexerSnapshot_new ::
  "helpers \<Rightarrow> IndexerEntity \<Rightarrow> Block \<Rightarrow> Store \<Rightarrow> snapshot_key \<times> Store" where
  "IndexerSnapshot_new h e b st =
     (let k = (entity_id e, periodOf h (timestamp b))
      in case snapshotStore st k of
           Some s \<Rightarrow> (k, st)
         | None \<Rightarrow> (k, st\<lparr>snapshotStore := (snapshotStore st)(k \<mapsto> newSnapshot)\<rparr>))"

definition snapshot_modify ::
  "snapshot_key \<Rightarrow> (IndexerSnapshotEntity \<Rightarrow> IndexerSnapshotEntity) \<Rightarrow> Store \<Rightarrow> Store" where
  "snapshot_modify k f st =
     st\<lparr>snapshotStore := (snapshotStore st)
        (k \<mapsto> f (case snapshotStore st k of None \<Rightarrow> newSnapshot | Some s \<Rightarrow> s))\<rparr>"

definition IndexerSnapshot_updateOwnStake :: "snapshot_key \<Rightarrow> BigDecimal \<Rightarrow> Store \<Rightarrow> Store" where
  "IndexerSnapshot_updateOwnStake k d = snapshot_modify k (\<lambda>s. s\<lparr>snap_ownStakeDelta := snap_ownStakeDelta s + d\<rparr>)"

definition IndexerSnapshot_updateDelegatedStake :: "snapshot_key \<Rightarrow> BigDecimal \<Rightarrow> Store \<Rightarrow> Store" where
  "IndexerSnapshot_updateDelegatedStake k d =
     snapshot_modify k (\<lambda>s. s\<lparr>snap_delegatedStakeDelta := snap_delegatedStakeDelta s + d\<rparr>)"

definition addDelegationPoolIndexingRewards :: "snapshot_key \<Rightarrow> BigDecimal \<Rightarrow> Store \<Rightarrow> Store" where
  "addDelegationPoolIndexingRewards k d =
     snapshot_modify k (\<lambda>s. s\<lparr>snap_delegationPoolIndexingRewards := snap_delegationPoolIndexingRewards s + d\<rparr>)"

definition incrementParametersChangesCount :: "snapshot_key \<Rightarrow> Store \<Rightarrow> Store" where
  "incrementParametersChangesCount k =
     snapshot_modify k (\<lambda>s. s\<lparr>snap_parametersChangesCount := snap_parametersChangesCount s + 1\<rparr>)"

definition previousMonthRewards :: "snapshot_key \<Rightarrow> Store \<Rightarrow> BigDecimal" where
  "previousMonthRewards k st =
     (case snapshotStore st (fst k, snd k - 1) of
        None \<Rightarrow> 0
      | Some s \<Rightarrow> snap_delegationPoolIndexingRewards s)"

definition registerUpdate ::
  "IndexerEntity \<Rightarrow> Block \<Rightarrow> BigDecimal \<Rightarrow> BigDecimal \<Rightarrow> Store \<Rightarrow> Store" where
  "registerUpdate e b newIndexingRewardCutRatio newQueryFeeCutRatio st =
     st\<lparr>parameterUpdateStore := parameterUpdateStore st @
        [\<lparr>pu_indexer = entity_id e, pu_effectiveBlock = number b,
          pu_indexingRewardCutRatio = newIndexingRewardCutRatio,
          pu_queryFeeCutRatio = newQueryFeeCutRatio\<rparr>]\<rparr>"

section \<open>The class Indexer\<close>

text \<open>
  An instance holds its entity, the block being processed, the lazily created snapshot
  and the three stakes copied from the entity by the constructor (\<^verbatim>\<open>_delegatedStake\<close>,
  \<^verbatim>\<open>_ownStake\<close>, \<^verbatim>\<open>_allocatedStake\<close>).
\<close>

record Indexer =
  indexerEntity :: IndexerEntity
  currentBlock :: Block
  priv_snapshot :: "snapshot_key option"
  priv_delegatedStake :: BigDecimal
  priv_ownStake :: BigDecimal
  priv_allocatedStake :: BigDecimal

definition newIndexerEntity :: "string \<Rightarrow> Block \<Rightarrow> IndexerEntity" where
  "newIndexerEntity a b =
     \<lparr>entity_id = a, createdAtTimestamp = timestamp b,
      ownStake = zeroBD, delegatedStake = zeroBD, allocatedStake = zeroBD,
      maximumDelegation = zeroBD, allocationRatio = zeroBD, delegationRatio = zeroBD,
      isOverDelegated = False, delegationPoolShares = Some oneBI,
      monthlyDelegatorRewardRate = zeroBD,
      indexingRewardCutRatio = None, queryFeeCutRatio = None,
      delegatorParameterCooldownBlock = None, lastSnapshot = None\<rparr>"

text \<open>The constructor; the address is given by its hexadecimal string.\<close>

definition Indexer_new :: "string \<Rightarrow> Block \<Rightarrow> Store \<Rightarrow> Indexer" where
  "Indexer_new address b st =
     (let e = (case indexerStore st address of
                 None \<Rightarrow> newIndexerEntity address b
               | Some e \<Rightarrow> e)
      in \<lparr>indexerEntity = e, currentBlock = b, priv_snapshot = None,
          priv_delegatedStake = delegatedStake e, priv_ownStake = ownStake e,
          priv_allocatedStake = allocatedStake e\<rparr>)"

subsection \<open>Getters\<close>

definition Indexer_id :: "Indexer \<Rightarrow> string" where
  "Indexer_id ix = entity_id (indexerEntity ix)"

definition Indexer_ownStake :: "Indexer \<Rightarrow> BigDecimal" where
  "Indexer_ownStake ix = priv_ownStake ix"

definition Indexer_delegatedStake :: "Indexer \<Rightarrow> BigDecimal" where
  "Indexer_delegatedStake ix = priv_delegatedStake ix"

definition Indexer_delegationPoolShares :: "Indexer \<Rightarrow> BigInt" where
  "Indexer_delegationPoolShares ix =
     (case delegationPoolShares (indexerEntity ix) of None \<Rightarrow> zeroBI | Some s \<Rightarrow> s)"

definition Indexer_allocatedStake :: "Indexer \<Rightarrow> BigDecimal" where
  "Indexer_allocatedStake ix = priv_allocatedStake ix"

definition Indexer_maximumDelegation :: "Indexer \<Rightarrow> BigDecimal" where
  "Indexer_maximumDelegation ix = Indexer_ownStake ix * sixteenBD"

definition Indexer_isOverDelegated :: "Indexer \<Rightarrow> bool" where
  "Indexer_isOverDelegated ix = (Indexer_delegatedStake ix > Indexer_maximumDelegation ix)"

definition Indexer_allocationRatio :: "Indexer \<Rightarrow> BigDecimal option" where
  "Indexer_allocationRatio ix =
     (let allocationCapacity = Indexer_ownStake ix;
          allocationCapacity =
            (if Indexer_isOverDelegated ix
             then allocationCapacity + Indexer_maximumDelegation ix
             else allocationCapacity + Indexer_delegatedStake ix)
      in if allocationCapacity = zeroBD then Some zeroBD
         else bd_div (Indexer_allocatedStake ix) allocationCapacity)"

definition Indexer_delegationRatio :: "Indexer \<Rightarrow> BigDecimal option" where
  "Indexer_delegationRatio ix =
     (if Indexer_ownStake ix = zeroBD then Some zeroBD
      else bd_div (Indexer_delegatedStake ix) (Indexer_maximumDelegation ix))"

text \<open>
  Methods that reach the store run on the pair of the instance and the store. The
  getter \<^verbatim>\<open>snapshot\<close> creates the snapshot on its first call and remembers it.
\<close>

type_synonym ctx = "Indexer \<times> Store"

definition Indexer_snapshot :: "helpers \<Rightarrow> ctx \<Rightarrow> snapshot_key \<times> ctx" where
  "Indexer_snapshot h c =
     (case priv_snapshot (fst c) of
        Some k \<Rightarrow> (k, c)
      | None \<Rightarrow>
          (let (k, st) = IndexerSnapshot_new h (indexerEntity (fst c)) (currentBlock (fst c)) (snd c)
           in (k, ((fst c)\<lparr>priv_snapshot := Some k\<rparr>, st))))"

definition Indexer_monthlyDelegatorRewardRate :: "helpers \<Rightarrow> ctx \<Rightarrow> BigDecimal option \<times> ctx" where
  "Indexer_monthlyDelegatorRewardRate h c =
     (if Indexer_delegatedStake (fst c) = zeroBD then (Some zeroBD, c)
      else (let (k, c') = Indexer_snapshot h c
            in (bd_div (previousMonthRewards k (snd c')) (Indexer_delegatedStake (fst c')), c')))"

subsection \<open>Mutators\<close>

text \<open>
  Each assignment to a field of the entity is one step, in the order of the source;
  its right-hand side is read from the instance as it is at that step. A division by
  zero in a getter aborts the mutator before \<^verbatim>\<open>save\<close>: the result is \<open>None\<close>.
\<close>

definition setEntity :: "(IndexerEntity \<Rightarrow> IndexerEntity) \<Rightarrow> ctx \<Rightarrow> ctx" where
  "setEntity f c = ((fst c)\<lparr>indexerEntity := f (indexerEntity (fst c))\<rparr>, snd c)"

definition save :: "ctx \<Rightarrow> ctx" where
  "save c = (fst c, IndexerEntity_save (indexerEntity (fst c)) (snd c))"

definition updateOwnStake :: "helpers \<Rightarrow> BigDecimal \<Rightarrow> ctx \<Rightarrow> ctx option" where
  "updateOwnStake h ownStakeDelta c0 =
     (let (k, c) = Indexer_snapshot h c0;
          c = (fst c, IndexerSnapshot_updateOwnStake k ownStakeDelta (snd c));
          (k, c) = Indexer_snapshot h c;
          c = setEntity (\<lambda>e. e\<lparr>lastSnapshot := Some k\<rparr>) c;
          c = setEntity (\<lambda>e. e\<lparr>ownStake := Indexer_ownStake (fst c) + ownStakeDelta\<rparr>) c;
          c = setEntity (\<lambda>e. e\<lparr>maximumDelegation := Indexer_maximumDelegation (fst c)\<rparr>) c;
          c = setEntity (\<lambda>e. e\<lparr>isOverDelegated := Indexer_isOverDelegated (fst c)\<rparr>) c
      in do {
           ar \<leftarrow> Indexer_allocationRatio (fst c);
           let c = setEntity (\<lambda>e. e\<lparr>allocationRatio := ar\<rparr>) c;
           dr \<leftarrow> Indexer_delegationRatio (fst c);
           let c = setEntity (\<lambda>e. e\<lparr>delegationRatio := dr\<rparr>) c;
           Some (save c)
         })"

definition updateDelegatedStake :: "helpers \<Rightarrow> BigDecimal \<Rightarrow> BigInt \<Rightarrow> ctx \<Rightarrow> ctx option" where
  "updateDelegatedStake h delegatedStakeDelta delegationPoolSharesDelta c0 =
     (let (k, c) = Indexer_snapshot h c0;
          c = (fst c, IndexerSnapshot_updateDelegatedStake k delegatedStakeDelta (snd c));
          (k, c) = Indexer_snapshot h c;
          c = setEntity (\<lambda>e. e\<lparr>lastSnapshot := Some k\<rparr>) c;
          c = setEntity (\<lambda>e. e\<lparr>delegatedStake := Indexer_delegatedStake (fst c) + delegatedStakeDelta\<rparr>) c;
          c = setEntity (\<lambda>e. e\<lparr>delegationPoolShares :=
                 Some (Indexer_delegationPoolShares (fst c) + delegationPoolSharesDelta)\<rparr>) c;
          c = setEntity (\<lambda>e. e\<lparr>isOverDelegated := Indexer_isOverDelegated (fst c)\<rparr>) c
      in do {
           ar \<leftarrow> Indexer_allocationRatio (fst c);
           let c = setEntity (\<lambda>e. e\<lparr>allocationRatio := ar\<rparr>) c;
           dr \<leftarrow> Indexer_delegationRatio (fst c);
           let c = setEntity (\<lambda>e. e\<lparr>delegationRatio := dr\<rparr>) c;
           let (mr, c) = Indexer_monthlyDelegatorRewardRate h c;
           r \<leftarrow> mr;
           let c = setEntity (\<lambda>e. e\<lparr>monthlyDelegatorRewardRate := r\<rparr>) c;
           Some (save c)
         })"

definition updateAllocatedStake :: "BigDecimal \<Rightarrow> ctx \<Rightarrow> ctx option" where
  "updateAllocatedStake newAllocatedStakeDelta c0 =
     (let c = setEntity (\<lambda>e. e\<lparr>allocatedStake :=
                 Indexer_allocatedStake (fst c0) + newAllocatedStakeDelta\<rparr>) c0
      in do {
           ar \<leftarrow> Indexer_allocationRatio (fst c);
           let c = setEntity (\<lambda>e. e\<lparr>allocationRatio := ar\<rparr>) c;
           Some (save c)
         })"

subsection \<open>Event handlers\<close>

text \<open>
  A handler reads the parameters of its event; they are the arguments here, in the
  order of the source. The handlers of the withdrawals and of the collection of an
  allocation have an empty body.
\<close>

definition handleStakeDeposited :: "helpers \<Rightarrow> BigInt \<Rightarrow> ctx \<Rightarrow> ctx option" where
  "handleStakeDeposited h tokens c =
     (let indexerStakeDeposited = tokenAmountToDecimal h tokens
      in updateOwnStake h indexerStakeDeposited c)"

definition handleStakeLocked :: "helpers \<Rightarrow> BigInt \<Rightarrow> ctx \<Rightarrow> ctx option" where
  "handleStakeLocked h tokens c =
     (let indexerStakeLocked = tokenAmountToDecimal h tokens
      in updateOwnStake h (- indexerStakeLocked) c)"

definition handleStakeWithdrawn :: "ctx \<Rightarrow> ctx option" where
  "handleStakeWithdrawn c = Some c"

definition handleStakeSlashed :: "helpers \<Rightarrow> BigInt \<Rightarrow> ctx \<Rightarrow> ctx option" where
  "handleStakeSlashed h tokens c =
     (let indexerStakeSlashed = tokenAmountToDecimal h tokens
      in updateOwnStake h (- indexerStakeSlashed) c)"

definition handleStakeDelegated :: "helpers \<Rightarrow> BigInt \<Rightarrow> BigInt \<Rightarrow> ctx \<Rightarrow> ctx option" where
  "handleStakeDelegated h tokens shares c =
     (let indexerStakeDelegated = tokenAmountToDecimal h tokens;
          mintedShares = shares
      in updateDelegatedStake h indexerStakeDelegated mintedShares c)"

definition handleStakeDelegatedLocked :: "helpers \<Rightarrow> BigInt \<Rightarrow> BigInt \<Rightarrow> ctx \<Rightarrow> ctx option" where
  "handleStakeDelegatedLocked h tokens shares c =
     (let burnedShares = shares;
          indexerStakeDelegatedLocked = tokenAmountToDecimal h tokens
      in updateDelegatedStake h (- indexerStakeDelegatedLocked) (- burnedShares) c)"

definition handleStakeDelegatedWithdrawn :: "ctx \<Rightarrow> ctx option" where
  "handleStakeDelegatedWithdrawn c = Some c"

definition handleAllocationCreated :: "helpers \<Rightarrow> BigInt \<Rightarrow> ctx \<Rightarrow> ctx option" where
  "handleAllocationCreated h tokens c =
     (let indexerAllocatedTokens = tokenAmountToDecimal h tokens
      in updateAllocatedStake indexerAllocatedTokens c)"

definition handleAllocationCollected :: "ctx \<Rightarrow> ctx option" where
  "handleAllocationCollected c = Some c"

definition handleAllocationClosed :: "helpers \<Rightarrow> BigInt \<Rightarrow> ctx \<Rightarrow> ctx option" where
  "handleAllocationClosed h tokens c =
     (let indexerAllocationTokens = tokenAmountToDecimal h tokens
      in updateAllocatedStake (- indexerAllocationTokens) c)"

text \<open>
  The first half of \<^verbatim>\<open>handleRewardsAssigned\<close>: the pair of its locals
  \<^verbatim>\<open>indexerIndexingRewards\<close> and \<^verbatim>\<open>delegatorIndexingRewards\<close>. A new entity has no
  \<^verbatim>\<open>indexingRewardCutRatio\<close>; multiplying by the missing value aborts the handler.
\<close>

definition indexingRewards :: "Indexer \<Rightarrow> BigDecimal \<Rightarrow> (BigDecimal \<times> BigDecimal) option" where
  "indexingRewards ix rewardedIndexingTokens =
     (if Indexer_delegatedStake ix = zeroBD then Some (rewardedIndexingTokens, zeroBD)
      else case indexingRewardCutRatio (indexerEntity ix) of
             None \<Rightarrow> None
           | Some cutRatio \<Rightarrow>
               (let indexerIndexingRewards = rewardedIndexingTokens * cutRatio;
                    delegatorIndexingRewards = rewardedIndexingTokens - indexerIndexingRewards
                in Some (indexerIndexingRewards, delegatorIndexingRewards)))"

definition handleRewardsAssigned :: "helpers \<Rightarrow> BigInt \<Rightarrow> ctx \<Rightarrow> ctx option" where
  "handleRewardsAssigned h amount c =
     (let rewardedIndexingTokens = tokenAmountToDecimal h amount
      in do {
           (indexerIndexingRewards, delegatorIndexingRewards) \<leftarrow>
              indexingRewards (fst c) rewardedIndexingTokens;
           let (k, c) = Indexer_snapshot h c;
           let c = (fst c, addDelegationPoolIndexingRewards k delegatorIndexingRewards (snd c));
           updateDelegatedStake h delegatorIndexingRewards zeroBI c
         })"

definition handleRebateClaimed :: "helpers \<Rightarrow> BigInt \<Rightarrow> ctx \<Rightarrow> ctx option" where
  "handleRebateClaimed h delegationFeesTokens c =
     (let delegationFees = tokenAmountToDecimal h delegationFeesTokens
      in do {
           c \<leftarrow> updateDelegatedStake h delegationFees zeroBI c;
           let (k, c) = Indexer_snapshot h c;
           Some (fst c, addDelegationPoolIndexingRewards k delegationFees (snd c))
         })"

text \<open>
  The block of the cooldown is the block of the event (\<^verbatim>\<open>event.block\<close>), the block of
  the parameter update is the one the instance was built with.
\<close>

definition handleDelegationParametersUpdated ::
  "helpers \<Rightarrow> Block \<Rightarrow> BigInt \<Rightarrow> BigInt \<Rightarrow> BigInt \<Rightarrow> ctx \<Rightarrow> ctx option" where
  "handleDelegationParametersUpdated h block indexingRewardCut queryFeeCut cooldownBlocks c0 =
     (let newIndexingRewardCutRatio = feeCutToDecimalRatio h indexingRewardCut;
          newQueryFeeCutRatio = feeCutToDecimalRatio h queryFeeCut;
          c = setEntity (\<lambda>e. e\<lparr>indexingRewardCutRatio := Some newIndexingRewardCutRatio\<rparr>) c0;
          c = setEntity (\<lambda>e. e\<lparr>queryFeeCutRatio := Some newQueryFeeCutRatio\<rparr>) c;
          c = (fst c, registerUpdate (indexerEntity (fst c)) (currentBlock (fst c))
                        newIndexingRewardCutRatio newQueryFeeCutRatio (snd c));
          (k, c) = Indexer_snapshot h c;
          c = (fst c, incrementParametersChangesCount k (snd c));
          c = (if cooldownBlocks = 0
               then setEntity (\<lambda>e. e\<lparr>delegatorParameterCooldownBlock := None\<rparr>) c
               else setEntity (\<lambda>e. e\<lparr>delegatorParameterCooldownBlock :=
                      Some (number block + cooldownBlocks)\<rparr>) c)
      in Some (save c))"

section \<open>Processing a stream of events\<close>

text \<open>Modelled from the spec: the mappings that receive the decoded events are not among
  the sources. Per the specification, events of one indexer are applied in order, and
  each is handled by loading the indexer by its address with the block of the event
  (the constructor) and calling the handler of the event. A handler that aborts stops
  the stream.
\<close>

datatype Event =
    StakeDeposited Block BigInt
  | StakeLocked Block BigInt
  | StakeWithdrawn Block
  | StakeSlashed Block BigInt
  | StakeDelegated Block BigInt BigInt
  | StakeDelegatedLocked Block BigInt BigInt
  | StakeDelegatedWithdrawn Block
  | AllocationCreated Block BigInt
  | AllocationCollected Block
  | AllocationClosed Block BigInt
  | RewardsAssigned Block BigInt
  | RebateClaimed Block BigInt
  | DelegationParametersUpdated Block BigInt BigInt BigInt

fun eventBlock :: "Event \<Rightarrow> Block" where
  "eventBlock (StakeDeposited b _) = b"
| "eventBlock (StakeLocked b _) = b"
| "eventBlock (StakeWithdrawn b) = b"
| "eventBlock (StakeSlashed b _) = b"
| "eventBlock (StakeDelegated b _ _) = b"
| "eventBlock (StakeDelegatedLocked b _ _) = b"
| "eventBlock (StakeDelegatedWithdrawn b) = b"
| "eventBlock (AllocationCreated b _) = b"
| "eventBlock (AllocationCollected b) = b"
| "eventBlock (AllocationClosed b _) = b"
| "eventBlock (RewardsAssigned b _) = b"
| "eventBlock (RebateClaimed b _) = b"
| "eventBlock (DelegationParametersUpdated b _ _ _) = b"

fun handleEvent :: "helpers \<Rightarrow> Event \<Rightarrow> ctx \<Rightarrow> ctx option" where
  "handleEvent h (StakeDeposited b tokens) c = handleStakeDeposited h tokens c"
| "handleEvent h (StakeLocked b tokens) c = handleStakeLocked h tokens c"
| "handleEvent h (StakeWithdrawn b) c = handleStakeWithdrawn c"
| "handleEvent h (StakeSlashed b tokens) c = handleStakeSlashed h tokens c"
| "handleEvent h (StakeDelegated b tokens shares) c = handleStakeDelegated h tokens shares c"
| "handleEvent h (StakeDelegatedLocked b tokens shares) c =
     handleStakeDelegatedLocked h tokens shares c"
| "handleEvent h (StakeDelegatedWithdrawn b) c = handleStakeDelegatedWithdrawn c"
| "handleEvent h (AllocationCreated b tokens) c = handleAllocationCreated h tokens c"
| "handleEvent h (AllocationCollected b) c = handleAllocationCollected c"
| "handleEvent h (AllocationClosed b tokens) c = handleAllocationClosed h tokens c"
| "handleEvent h (RewardsAssigned b amount) c = handleRewardsAssigned h amount c"
| "handleEvent h (RebateClaimed b delegationFees) c = handleRebateClaimed h delegationFees c"
| "handleEvent h (DelegationParametersUpdated b indexingRewardCut queryFeeCut cooldownBlocks) c =
     handleDelegationParametersUpdated h b indexingRewardCut queryFeeCut cooldownBlocks c"

text \<open>Modelled from the spec: one event is handled by a new instance, built by the
  constructor from the store with the block of the event; the mapping that does so is
  not among the sources.
\<close>

definition processEvent :: "helpers \<Rightarrow> string \<Rightarrow> Event \<Rightarrow> Store \<Rightarrow> Store option" where
  "processEvent h address ev st =
     map_option snd (handleEvent h ev (Indexer_new address (eventBlock ev) st, st))"

text \<open>Modelled from the spec: the events of one indexer are applied in order, each to
  the store the previous one left.
\<close>

fun processEvents :: "helpers \<Rightarrow> string \<Rightarrow> Event list \<Rightarrow> Store \<Rightarrow> Store option" where
  "processEvents h address [] st = Some st"
| "processEvents h address (ev # evs) st =
     (case processEvent h address ev st of
        None \<Rightarrow> None
      | Some st' \<Rightarrow> processEvents h address evs st')"

section \<open>The class DelegatedStake\<close>

record DelegatedStake =
  delegatedStakeEntity :: DelegatedStakeEntity
  ds_delegatorEntity :: DelegatorEntity
  ds_indexerEntity :: IndexerEntity
  ds_currentBlock :: Block

text \<open>
  The getter \<^verbatim>\<open>id\<close> reads the two entities only, so it is a function of them: the
  constructor calls it before \<^verbatim>\<open>delegatedStakeEntity\<close> is set. Its log lines have no
  effect on the state.
\<close>

definition DelegatedStake_id :: "IndexerEntity \<Rightarrow> DelegatorEntity \<Rightarrow> string" where
  "DelegatedStake_id ie de = entity_id ie @ ''-'' @ delegator_id de"

definition initializeDelegatedStakeEntity ::
  "IndexerEntity \<Rightarrow> DelegatorEntity \<Rightarrow> Block \<Rightarrow> Store \<Rightarrow> DelegatedStakeEntity \<times> Store" where
  "initializeDelegatedStakeEntity ie de b st =
     (case delegatedStakeStore st (DelegatedStake_id ie de) of
        None \<Rightarrow>
          (let newEntity =
                 \<lparr>ds_id = DelegatedStake_id ie de, ds_indexer = entity_id ie,
                  ds_delegator = delegator_id de, ds_createdAtTimestamp = timestamp b\<rparr>
           in (newEntity,
               st\<lparr>delegatedStakeStore :=
                    (delegatedStakeStore st)(ds_id newEntity \<mapsto> newEntity)\<rparr>))
      | Some loaded \<Rightarrow> (loaded, st))"

definition DelegatedStake_new ::
  "IndexerEntity \<Rightarrow> DelegatorEntity \<Rightarrow> Block \<Rightarrow> Store \<Rightarrow> DelegatedStake \<times> Store" where
  "DelegatedStake_new ie de b st =
     (let (e, st') = initializeDelegatedStakeEntity ie de b st
      in (\<lparr>delegatedStakeEntity = e, ds_delegatorEntity = de, ds_indexerEntity = ie,
           ds_currentBlock = b\<rparr>, st'))"

definition isCreatedThisBlock :: "DelegatedStake \<Rightarrow> bool" where
  "isCreatedThisBlock d =
     (ds_createdAtTimestamp (delegatedStakeEntity d) = timestamp (ds_currentBlock d))"

section \<open>Observations\<close>

text \<open>
  The own stake that the store holds for an address: the value the next constructor
  call reads, zero when the indexer has never been saved.
\<close>

definition persistedOwnStake :: "Store \<Rightarrow> string \<Rightarrow> BigDecimal" where
  "persistedOwnStake st address =
     (case indexerStore st address of None \<Rightarrow> zeroBD | Some e \<Rightarrow> ownStake e)"

text \<open>The store keeps an entity under its own identifier (\<^verbatim>\<open>save\<close> writes it there).\<close>

definition keyedAt :: "Store \<Rightarrow> string \<Rightarrow> bool" where
  "keyedAt st address =
     (case indexerStore st address of None \<Rightarrow> True | Some e \<Rightarrow> entity_id e = address)"

fun isStakeDepositedOrLocked :: "Event \<Rightarrow> bool" where
  "isStakeDepositedOrLocked (StakeDeposited b tokens) = True"
| "isStakeDepositedOrLocked (StakeLocked b tokens) = True"
| "isStakeDepositedOrLocked _ = False"

text \<open>The signed change of own stake that a deposit or a lock carries.\<close>

fun signedDelta :: "helpers \<Rightarrow> Event \<Rightarrow> BigDecimal" where
  "signedDelta h (StakeDeposited b tokens) = tokenAmountToDecimal h tokens"
| "signedDelta h (StakeLocked b tokens) = - tokenAmountToDecimal h tokens"
| "signedDelta h _ = 0"

text \<open>
  An instance of the parameters, for evaluating the model on concrete events: token
  amounts in units of \<open>10\<^sup>1\<^sup>8\<close>, fee cuts in parts per million, periods of thirty days.
\<close>

definition exampleHelpers :: helpers where
  "exampleHelpers =
     \<lparr>tokenAmountToDecimal = (\<lambda>n. of_int n / 10 ^ 18),
      feeCutToDecimalRatio = (\<lambda>n. of_int n / 10 ^ 6),
      periodOf = (\<lambda>t. t div 2592000)\<rparr>"

definition exampleBlock :: Block where
  "exampleBlock = \<lparr>number = 100, timestamp = 1600000000\<rparr>"

text \<open>
  A store that holds one indexer with the given stakes, share count and reward cut,
  and the instance the constructor builds from it.
\<close>

definition exampleStore ::
  "BigDecimal \<Rightarrow> BigDecimal \<Rightarrow> BigDecimal \<Rightarrow> BigInt \<Rightarrow> BigDecimal \<Rightarrow> Store" where
  "exampleStore own del alloc shares cutRatio =
     emptyStore\<lparr>indexerStore :=
       [''0xab'' \<mapsto> (newIndexerEntity ''0xab'' exampleBlock)
          \<lparr>ownStake := own, delegatedStake := del, allocatedStake := alloc,
           delegationPoolShares := Some shares, indexingRewardCutRatio := Some cutRatio\<rparr>]\<rparr>"

definition exampleIndexer :: "BigDecimal \<Rightarrow> BigDecimal \<Rightarrow> BigDecimal \<Rightarrow> Indexer" where
  "exampleIndexer own del alloc =
     Indexer_new ''0xab'' exampleBlock (exampleStore own del alloc 1 0)"


section \<open>Effects of the getters and mutators\<close>

lemmas getter_defs = Indexer_ownStake_def Indexer_delegatedStake_def Indexer_allocatedStake_def
  Indexer_maximumDelegation_def Indexer_isOverDelegated_def Indexer_delegationPoolShares_def
  Indexer_id_def zeroBD_def sixteenBD_def oneBI_def zeroBI_def

text \<open>Both ratios are defined on every instance: each division is guarded.\<close>

lemma allocationRatio_total:
  "Indexer_allocationRatio ix =
     Some (if priv_ownStake ix + (if priv_ownStake ix * 16 < priv_delegatedStake ix
                                   then priv_ownStake ix * 16 else priv_delegatedStake ix) = 0
           then 0
           else priv_allocatedStake ix /
                (priv_ownStake ix + (if priv_ownStake ix * 16 < priv_delegatedStake ix
                                   then priv_ownStake ix * 16 else priv_delegatedStake ix)))"
  by (simp add: Indexer_allocationRatio_def getter_defs bd_div_def Let_def)

lemma delegationRatio_total:
  "Indexer_delegationRatio ix =
     Some (if priv_ownStake ix = 0 then 0 else priv_delegatedStake ix / (priv_ownStake ix * 16))"
  by (simp add: Indexer_delegationRatio_def getter_defs bd_div_def)

lemma allocationRatio_bind:
  "Indexer_allocationRatio ix \<bind> g = g (the (Indexer_allocationRatio ix))"
  by (simp add: allocationRatio_total)

lemma delegationRatio_bind:
  "Indexer_delegationRatio ix \<bind> g = g (the (Indexer_delegationRatio ix))"
  by (simp add: delegationRatio_total)

lemma ratio_frame:
  "Indexer_allocationRatio (indexerEntity_update f ix) = Indexer_allocationRatio ix"
  "Indexer_allocationRatio (priv_snapshot_update g ix) = Indexer_allocationRatio ix"
  "Indexer_delegationRatio (indexerEntity_update f ix) = Indexer_delegationRatio ix"
  "Indexer_delegationRatio (priv_snapshot_update g ix) = Indexer_delegationRatio ix"
  by (simp_all add: allocationRatio_total delegationRatio_total)

text \<open>The getter \<^verbatim>\<open>snapshot\<close> touches the cached snapshot and the snapshot ledger only.\<close>

lemma snapshot_fst:
  "fst (snd (Indexer_snapshot h c)) = (fst c)\<lparr>priv_snapshot := Some (fst (Indexer_snapshot h c))\<rparr>"
  by (cases c) (auto simp: Indexer_snapshot_def split: option.splits prod.splits)

lemma snapshot_indexerStore:
  "indexerStore (snd (snd (Indexer_snapshot h c))) = indexerStore (snd c)"
  by (cases c)
    (auto simp: Indexer_snapshot_def IndexerSnapshot_new_def Let_def
          split: option.splits prod.splits)

lemma snapshot_modify_indexerStore:
  "indexerStore (snapshot_modify k f st) = indexerStore st"
  by (simp add: snapshot_modify_def)

lemma monthly_total:
  "\<exists>r. fst (Indexer_monthlyDelegatorRewardRate h c) = Some r"
  by (simp add: Indexer_monthlyDelegatorRewardRate_def getter_defs bd_div_def snapshot_fst
        split_beta)

lemma monthly_fst:
  "\<exists>k. fst (snd (Indexer_monthlyDelegatorRewardRate h c)) = (fst c)\<lparr>priv_snapshot := k\<rparr>"
  by (cases "fst c")
    (simp add: Indexer_monthlyDelegatorRewardRate_def snapshot_fst split_beta)

lemma monthly_indexerStore:
  "indexerStore (snd (snd (Indexer_monthlyDelegatorRewardRate h c))) = indexerStore (snd c)"
  by (simp add: Indexer_monthlyDelegatorRewardRate_def snapshot_indexerStore split_beta)

text \<open>
  What each mutator leaves behind: it always returns, the three cached stakes of the
  instance are untouched, and the entity it saves is built from the cached stakes.
\<close>

lemma updateOwnStake_effect:
  "\<exists>c'. updateOwnStake h d c = Some c' \<and>
     priv_ownStake (fst c') = priv_ownStake (fst c) \<and>
     priv_delegatedStake (fst c') = priv_delegatedStake (fst c) \<and>
     priv_allocatedStake (fst c') = priv_allocatedStake (fst c) \<and>
     entity_id (indexerEntity (fst c')) = entity_id (indexerEntity (fst c)) \<and>
     ownStake (indexerEntity (fst c')) = priv_ownStake (fst c) + d \<and>
     maximumDelegation (indexerEntity (fst c')) = priv_ownStake (fst c) * 16 \<and>
     isOverDelegated (indexerEntity (fst c')) =
       (priv_ownStake (fst c) * 16 < priv_delegatedStake (fst c)) \<and>
     delegatedStake (indexerEntity (fst c')) = delegatedStake (indexerEntity (fst c)) \<and>
     indexerStore (snd c') =
       (indexerStore (snd c))(entity_id (indexerEntity (fst c)) \<mapsto> indexerEntity (fst c'))"
  by (simp add: updateOwnStake_def Let_def split_beta allocationRatio_total delegationRatio_total
      setEntity_def save_def snapshot_fst getter_defs IndexerEntity_save_def snapshot_indexerStore
      IndexerSnapshot_updateOwnStake_def snapshot_modify_indexerStore)

lemma updateDelegatedStake_effect:
  "\<exists>c'. updateDelegatedStake h d sd c = Some c' \<and>
     priv_ownStake (fst c') = priv_ownStake (fst c) \<and>
     priv_delegatedStake (fst c') = priv_delegatedStake (fst c) \<and>
     priv_allocatedStake (fst c') = priv_allocatedStake (fst c) \<and>
     entity_id (indexerEntity (fst c')) = entity_id (indexerEntity (fst c)) \<and>
     delegatedStake (indexerEntity (fst c')) = priv_delegatedStake (fst c) + d \<and>
     delegationPoolShares (indexerEntity (fst c')) =
       Some (Indexer_delegationPoolShares (fst c) + sd) \<and>
     isOverDelegated (indexerEntity (fst c')) =
       (priv_ownStake (fst c) * 16 < priv_delegatedStake (fst c)) \<and>
     maximumDelegation (indexerEntity (fst c')) = maximumDelegation (indexerEntity (fst c)) \<and>
     ownStake (indexerEntity (fst c')) = ownStake (indexerEntity (fst c)) \<and>
     indexerStore (snd c') =
       (indexerStore (snd c))(entity_id (indexerEntity (fst c)) \<mapsto> indexerEntity (fst c'))"
proof -
  define c1 where "c1 = snd (Indexer_snapshot h c)"
  define c2 where
    "c2 = (fst c1, IndexerSnapshot_updateDelegatedStake (fst (Indexer_snapshot h c)) d (snd c1))"
  define k where "k = fst (Indexer_snapshot h c2)"
  define c3 where "c3 = snd (Indexer_snapshot h c2)"
  define E where "E = (indexerEntity (fst c))\<lparr>lastSnapshot := Some k,
       delegatedStake := priv_delegatedStake (fst c) + d,
       delegationPoolShares := Some (Indexer_delegationPoolShares (fst c) + sd),
       isOverDelegated := (priv_ownStake (fst c) * 16 < priv_delegatedStake (fst c)),
       allocationRatio := the (Indexer_allocationRatio (fst c)),
       delegationRatio := the (Indexer_delegationRatio (fst c))\<rparr>"
  define c4 where "c4 = ((fst c)\<lparr>priv_snapshot := Some k, indexerEntity := E\<rparr>, snd c3)"
  have c3_fst: "fst c3 = (fst c)\<lparr>priv_snapshot := Some k\<rparr>"
    by (simp add: c3_def c2_def c1_def k_def snapshot_fst)
  have c3_store: "indexerStore (snd c3) = indexerStore (snd c)"
    by (simp add: c3_def c2_def c1_def snapshot_indexerStore
        IndexerSnapshot_updateDelegatedStake_def snapshot_modify_indexerStore)
  obtain r where r: "fst (Indexer_monthlyDelegatorRewardRate h c4) = Some r"
    using monthly_total by blast
  obtain k' where
    f: "fst (snd (Indexer_monthlyDelegatorRewardRate h c4)) = (fst c4)\<lparr>priv_snapshot := k'\<rparr>"
    using monthly_fst by blast
  have s: "indexerStore (snd (snd (Indexer_monthlyDelegatorRewardRate h c4))) =
      indexerStore (snd c)"
    by (simp add: monthly_indexerStore c4_def c3_store)
  have step: "updateDelegatedStake h d sd c =
     (let c = setEntity (\<lambda>e. e\<lparr>lastSnapshot := Some k\<rparr>) c3;
          c = setEntity (\<lambda>e. e\<lparr>delegatedStake := Indexer_delegatedStake (fst c) + d\<rparr>) c;
          c = setEntity (\<lambda>e. e\<lparr>delegationPoolShares :=
                 Some (Indexer_delegationPoolShares (fst c) + sd)\<rparr>) c;
          c = setEntity (\<lambda>e. e\<lparr>isOverDelegated := Indexer_isOverDelegated (fst c)\<rparr>) c
      in do {
           ar \<leftarrow> Indexer_allocationRatio (fst c);
           let c = setEntity (\<lambda>e. e\<lparr>allocationRatio := ar\<rparr>) c;
           dr \<leftarrow> Indexer_delegationRatio (fst c);
           let c = setEntity (\<lambda>e. e\<lparr>delegationRatio := dr\<rparr>) c;
           let (mr, c) = Indexer_monthlyDelegatorRewardRate h c;
           r \<leftarrow> mr;
           let c = setEntity (\<lambda>e. e\<lparr>monthlyDelegatorRewardRate := r\<rparr>) c;
           Some (save c)
         })"
    unfolding updateDelegatedStake_def c3_def c2_def c1_def k_def
    by (simp only: Let_def split_beta)
  have step2: "updateDelegatedStake h d sd c =
     (fst (Indexer_monthlyDelegatorRewardRate h c4) \<bind>
        (\<lambda>r. Some (save (setEntity (\<lambda>e. e\<lparr>monthlyDelegatorRewardRate := r\<rparr>)
                 (snd (Indexer_monthlyDelegatorRewardRate h c4))))))"
    unfolding step
    by (simp add: Let_def allocationRatio_bind delegationRatio_bind ratio_frame getter_defs
         setEntity_def c3_fst split_beta c4_def E_def)
  have u: "updateDelegatedStake h d sd c =
     Some (save (setEntity (\<lambda>e. e\<lparr>monthlyDelegatorRewardRate := r\<rparr>)
        (snd (Indexer_monthlyDelegatorRewardRate h c4))))"
    unfolding step2 r by simp
  have f': "fst (snd (Indexer_monthlyDelegatorRewardRate h c4)) =
      (fst c)\<lparr>priv_snapshot := k', indexerEntity := E\<rparr>"
    using f by (simp add: c4_def)
  show ?thesis
    unfolding u
    by (simp add: save_def setEntity_def IndexerEntity_save_def f' s E_def)
qed

lemma updateAllocatedStake_effect:
  "\<exists>c'. updateAllocatedStake d c = Some c' \<and>
     priv_ownStake (fst c') = priv_ownStake (fst c) \<and>
     priv_delegatedStake (fst c') = priv_delegatedStake (fst c) \<and>
     priv_allocatedStake (fst c') = priv_allocatedStake (fst c) \<and>
     entity_id (indexerEntity (fst c')) = entity_id (indexerEntity (fst c)) \<and>
     allocatedStake (indexerEntity (fst c')) = priv_allocatedStake (fst c) + d \<and>
     maximumDelegation (indexerEntity (fst c')) = maximumDelegation (indexerEntity (fst c)) \<and>
     isOverDelegated (indexerEntity (fst c')) = isOverDelegated (indexerEntity (fst c)) \<and>
     ownStake (indexerEntity (fst c')) = ownStake (indexerEntity (fst c)) \<and>
     delegatedStake (indexerEntity (fst c')) = delegatedStake (indexerEntity (fst c)) \<and>
     indexerStore (snd c') =
       (indexerStore (snd c))(entity_id (indexerEntity (fst c)) \<mapsto> indexerEntity (fst c'))"
  by (simp add: updateAllocatedStake_def Let_def allocationRatio_total
      setEntity_def save_def getter_defs IndexerEntity_save_def)

lemma Indexer_new_cached:
  "priv_ownStake (Indexer_new a b st) = ownStake (indexerEntity (Indexer_new a b st))"
  "priv_delegatedStake (Indexer_new a b st) = delegatedStake (indexerEntity (Indexer_new a b st))"
  "priv_allocatedStake (Indexer_new a b st) = allocatedStake (indexerEntity (Indexer_new a b st))"
  by (simp_all add: Indexer_new_def Let_def)

lemma exampleIndexer_fields:
  "priv_ownStake (exampleIndexer own del alloc) = own"
  "priv_delegatedStake (exampleIndexer own del alloc) = del"
  "priv_allocatedStake (exampleIndexer own del alloc) = alloc"
  by (simp_all add: exampleIndexer_def exampleStore_def emptyStore_def Indexer_new_def)

section \<open>Derived ratios\<close>

text \<open>
  C6. The getter \<^verbatim>\<open>allocationRatio\<close> takes as capacity the own stake plus the maximum
  delegation when the indexer is over-delegated and plus the delegated stake otherwise.
  It returns zero when the capacity is zero, in particular when own stake and delegated
  stake are both zero, and the allocated stake divided by the capacity otherwise. It
  never divides by zero: the result is always \<open>Some\<close>.
\<close>

theorem allocationRatio_capacity:
  "Indexer_allocationRatio ix =
     Some (let capacity = Indexer_ownStake ix +
                 (if Indexer_isOverDelegated ix then Indexer_maximumDelegation ix
                  else Indexer_delegatedStake ix)
           in if capacity = 0 then 0 else Indexer_allocatedStake ix / capacity)
   \<and> (Indexer_ownStake ix = 0 \<and> Indexer_delegatedStake ix = 0 \<longrightarrow>
        Indexer_allocationRatio ix = Some 0)"
  by (simp add: allocationRatio_total getter_defs Let_def)

theorem allocationRatio_capacity_witness:
  "Indexer_ownStake (exampleIndexer 0 0 7) = 0 \<and> Indexer_delegatedStake (exampleIndexer 0 0 7) = 0
   \<and> Indexer_allocationRatio (exampleIndexer 0 0 7) = Some 0
   \<and> Indexer_allocationRatio (exampleIndexer 10 200 85) = Some (1 / 2)"
  using allocationRatio_capacity [of "exampleIndexer 0 0 7"]
        allocationRatio_capacity [of "exampleIndexer 10 200 85"]
  by (simp add: exampleIndexer_fields getter_defs Let_def)

text \<open>
  C7, as the code has it. The getter \<^verbatim>\<open>delegationRatio\<close> returns zero when the own
  stake is zero, whatever the delegated stake, and the delegated stake divided by the
  maximum delegation otherwise, with no clamping. When the own stake is positive the
  ratio exceeds one exactly when the indexer is over-delegated.
\<close>

theorem delegationRatio_unclamped:
  "(Indexer_ownStake ix = 0 \<longrightarrow> Indexer_delegationRatio ix = Some 0) \<and>
   (Indexer_ownStake ix \<noteq> 0 \<longrightarrow>
      Indexer_delegationRatio ix =
        Some (Indexer_delegatedStake ix / Indexer_maximumDelegation ix)) \<and>
   (0 < Indexer_ownStake ix \<longrightarrow>
      (\<exists>r. Indexer_delegationRatio ix = Some r \<and> (1 < r \<longleftrightarrow> Indexer_isOverDelegated ix)))"
  by (simp add: delegationRatio_total getter_defs)

theorem delegationRatio_unclamped_witness:
  "Indexer_ownStake (exampleIndexer 0 5 0) = 0 \<and>
   Indexer_delegationRatio (exampleIndexer 0 5 0) = Some 0 \<and>
   0 < Indexer_ownStake (exampleIndexer 10 200 0) \<and>
   Indexer_delegationRatio (exampleIndexer 10 200 0) = Some (5 / 4) \<and>
   Indexer_isOverDelegated (exampleIndexer 10 200 0)"
  using delegationRatio_unclamped [of "exampleIndexer 0 5 0"]
        delegationRatio_unclamped [of "exampleIndexer 10 200 0"]
  by (simp add: exampleIndexer_fields getter_defs)

text \<open>
  Without a positive own stake the ratio does not tell over-delegation. An indexer with
  no own stake and a delegated stake of 5 is over-delegated and its ratio is zero, by
  the guard of the getter. A negative own stake, which a lock or a slash larger than the
  stake produces, gives a negative maximum delegation: with own stake \<open>-1\<close> and nothing
  delegated the indexer is over-delegated and the ratio is zero as well.
\<close>

theorem delegationRatio_overDelegated_counterexample:
  "Indexer_ownStake (exampleIndexer 0 5 0) = 0 \<and>
   Indexer_isOverDelegated (exampleIndexer 0 5 0) \<and>
   Indexer_delegationRatio (exampleIndexer 0 5 0) = Some 0 \<and>
   Indexer_ownStake (exampleIndexer (- 1) 0 0) \<noteq> 0 \<and>
   Indexer_isOverDelegated (exampleIndexer (- 1) 0 0) \<and>
   Indexer_delegationRatio (exampleIndexer (- 1) 0 0) = Some 0"
  by (simp add: delegationRatio_total exampleIndexer_fields getter_defs)

section \<open>The cached stakes of an instance\<close>

text \<open>
  C5. No mutator changes what the getters \<^verbatim>\<open>ownStake\<close>, \<^verbatim>\<open>delegatedStake\<close> and
  \<^verbatim>\<open>allocatedStake\<close> of the same instance return: they return the values the constructor
  copied from the entity. Each mutator saves the cached value plus its delta, so a
  second call of the same mutator on the instance saves the cached value plus the second
  delta only.
\<close>

theorem mutators_keep_cached_getters:
  "(\<exists>c1 e1. updateOwnStake h d c = Some c1 \<and>
       Indexer_ownStake (fst c1) = Indexer_ownStake (fst c) \<and>
       Indexer_delegatedStake (fst c1) = Indexer_delegatedStake (fst c) \<and>
       Indexer_allocatedStake (fst c1) = Indexer_allocatedStake (fst c) \<and>
       indexerStore (snd c1) (Indexer_id (fst c)) = Some e1 \<and>
       ownStake e1 = Indexer_ownStake (fst c) + d) \<and>
   (\<exists>c2 e2. updateDelegatedStake h d sd c = Some c2 \<and>
       Indexer_ownStake (fst c2) = Indexer_ownStake (fst c) \<and>
       Indexer_delegatedStake (fst c2) = Indexer_delegatedStake (fst c) \<and>
       Indexer_allocatedStake (fst c2) = Indexer_allocatedStake (fst c) \<and>
       indexerStore (snd c2) (Indexer_id (fst c)) = Some e2 \<and>
       delegatedStake e2 = Indexer_delegatedStake (fst c) + d) \<and>
   (\<exists>c3 e3. updateAllocatedStake d c = Some c3 \<and>
       Indexer_ownStake (fst c3) = Indexer_ownStake (fst c) \<and>
       Indexer_delegatedStake (fst c3) = Indexer_delegatedStake (fst c) \<and>
       Indexer_allocatedStake (fst c3) = Indexer_allocatedStake (fst c) \<and>
       indexerStore (snd c3) (Indexer_id (fst c)) = Some e3 \<and>
       allocatedStake e3 = Indexer_allocatedStake (fst c) + d) \<and>
   Indexer_ownStake (Indexer_new a b st) = ownStake (indexerEntity (Indexer_new a b st)) \<and>
   Indexer_delegatedStake (Indexer_new a b st) = delegatedStake (indexerEntity (Indexer_new a b st)) \<and>
   Indexer_allocatedStake (Indexer_new a b st) = allocatedStake (indexerEntity (Indexer_new a b st)) \<and>
   (\<exists>c1 c2 e. updateOwnStake h d c = Some c1 \<and> updateOwnStake h d' c1 = Some c2 \<and>
       indexerStore (snd c2) (Indexer_id (fst c)) = Some e \<and>
       ownStake e = Indexer_ownStake (fst c) + d') \<and>
   (\<exists>c1 c2 e. updateDelegatedStake h d sd c = Some c1 \<and>
       updateDelegatedStake h d' sd' c1 = Some c2 \<and>
       indexerStore (snd c2) (Indexer_id (fst c)) = Some e \<and>
       delegatedStake e = Indexer_delegatedStake (fst c) + d') \<and>
   (\<exists>c1 c2 e. updateAllocatedStake d c = Some c1 \<and> updateAllocatedStake d' c1 = Some c2 \<and>
       indexerStore (snd c2) (Indexer_id (fst c)) = Some e \<and>
       allocatedStake e = Indexer_allocatedStake (fst c) + d')"
proof -
  obtain c1 where c1: "updateOwnStake h d c = Some c1"
      "priv_ownStake (fst c1) = priv_ownStake (fst c)"
      "priv_delegatedStake (fst c1) = priv_delegatedStake (fst c)"
      "priv_allocatedStake (fst c1) = priv_allocatedStake (fst c)"
      "entity_id (indexerEntity (fst c1)) = entity_id (indexerEntity (fst c))"
      "ownStake (indexerEntity (fst c1)) = priv_ownStake (fst c) + d"
      "indexerStore (snd c1) =
         (indexerStore (snd c))(entity_id (indexerEntity (fst c)) \<mapsto> indexerEntity (fst c1))"
    using updateOwnStake_effect [of h d c] by blast
  obtain c1' where c1': "updateOwnStake h d' c1 = Some c1'"
      "ownStake (indexerEntity (fst c1')) = priv_ownStake (fst c1) + d'"
      "indexerStore (snd c1') =
         (indexerStore (snd c1))(entity_id (indexerEntity (fst c1)) \<mapsto> indexerEntity (fst c1'))"
    using updateOwnStake_effect [of h d' c1] by blast
  obtain c2 where c2: "updateDelegatedStake h d sd c = Some c2"
      "priv_ownStake (fst c2) = priv_ownStake (fst c)"
      "priv_delegatedStake (fst c2) = priv_delegatedStake (fst c)"
      "priv_allocatedStake (fst c2) = priv_allocatedStake (fst c)"
      "entity_id (indexerEntity (fst c2)) = entity_id (indexerEntity (fst c))"
      "delegatedStake (indexerEntity (fst c2)) = priv_delegatedStake (fst c) + d"
      "indexerStore (snd c2) =
         (indexerStore (snd c))(entity_id (indexerEntity (fst c)) \<mapsto> indexerEntity (fst c2))"
    using updateDelegatedStake_effect [of h d sd c] by blast
  obtain c2' where c2': "updateDelegatedStake h d' sd' c2 = Some c2'"
      "delegatedStake (indexerEntity (fst c2')) = priv_delegatedStake (fst c2) + d'"
      "indexerStore (snd c2') =
         (indexerStore (snd c2))(entity_id (indexerEntity (fst c2)) \<mapsto> indexerEntity (fst c2'))"
    using updateDelegatedStake_effect [of h d' sd' c2] by blast
  obtain c3 where c3: "updateAllocatedStake d c = Some c3"
      "priv_ownStake (fst c3) = priv_ownStake (fst c)"
      "priv_delegatedStake (fst c3) = priv_delegatedStake (fst c)"
      "priv_allocatedStake (fst c3) = priv_allocatedStake (fst c)"
      "entity_id (indexerEntity (fst c3)) = entity_id (indexerEntity (fst c))"
      "allocatedStake (indexerEntity (fst c3)) = priv_allocatedStake (fst c) + d"
      "indexerStore (snd c3) =
         (indexerStore (snd c))(entity_id (indexerEntity (fst c)) \<mapsto> indexerEntity (fst c3))"
    using updateAllocatedStake_effect [of d c] by blast
  obtain c3' where c3': "updateAllocatedStake d' c3 = Some c3'"
      "allocatedStake (indexerEntity (fst c3')) = priv_allocatedStake (fst c3) + d'"
      "indexerStore (snd c3') =
         (indexerStore (snd c3))(entity_id (indexerEntity (fst c3)) \<mapsto> indexerEntity (fst c3'))"
    using updateAllocatedStake_effect [of d' c3] by blast
  have own: "\<exists>c1 e1. updateOwnStake h d c = Some c1 \<and>
       Indexer_ownStake (fst c1) = Indexer_ownStake (fst c) \<and>
       Indexer_delegatedStake (fst c1) = Indexer_delegatedStake (fst c) \<and>
       Indexer_allocatedStake (fst c1) = Indexer_allocatedStake (fst c) \<and>
       indexerStore (snd c1) (Indexer_id (fst c)) = Some e1 \<and>
       ownStake e1 = Indexer_ownStake (fst c) + d"
    using c1 by (simp add: getter_defs)
  have del: "\<exists>c2 e2. updateDelegatedStake h d sd c = Some c2 \<and>
       Indexer_ownStake (fst c2) = Indexer_ownStake (fst c) \<and>
       Indexer_delegatedStake (fst c2) = Indexer_delegatedStake (fst c) \<and>
       Indexer_allocatedStake (fst c2) = Indexer_allocatedStake (fst c) \<and>
       indexerStore (snd c2) (Indexer_id (fst c)) = Some e2 \<and>
       delegatedStake e2 = Indexer_delegatedStake (fst c) + d"
    using c2 by (simp add: getter_defs)
  have alloc: "\<exists>c3 e3. updateAllocatedStake d c = Some c3 \<and>
       Indexer_ownStake (fst c3) = Indexer_ownStake (fst c) \<and>
       Indexer_delegatedStake (fst c3) = Indexer_delegatedStake (fst c) \<and>
       Indexer_allocatedStake (fst c3) = Indexer_allocatedStake (fst c) \<and>
       indexerStore (snd c3) (Indexer_id (fst c)) = Some e3 \<and>
       allocatedStake e3 = Indexer_allocatedStake (fst c) + d"
    using c3 by (simp add: getter_defs)
  have own2: "\<exists>c1 c2 e. updateOwnStake h d c = Some c1 \<and> updateOwnStake h d' c1 = Some c2 \<and>
       indexerStore (snd c2) (Indexer_id (fst c)) = Some e \<and>
       ownStake e = Indexer_ownStake (fst c) + d'"
    using c1 c1' by (intro exI [of _ c1] exI [of _ c1']) (simp add: getter_defs)
  have del2: "\<exists>c1 c2 e. updateDelegatedStake h d sd c = Some c1 \<and>
       updateDelegatedStake h d' sd' c1 = Some c2 \<and>
       indexerStore (snd c2) (Indexer_id (fst c)) = Some e \<and>
       delegatedStake e = Indexer_delegatedStake (fst c) + d'"
    using c2 c2' by (intro exI [of _ c2] exI [of _ c2']) (simp add: getter_defs)
  have alloc2: "\<exists>c1 c2 e. updateAllocatedStake d c = Some c1 \<and> updateAllocatedStake d' c1 = Some c2 \<and>
       indexerStore (snd c2) (Indexer_id (fst c)) = Some e \<and>
       allocatedStake e = Indexer_allocatedStake (fst c) + d'"
    using c3 c3' by (intro exI [of _ c3] exI [of _ c3']) (simp add: getter_defs)
  have new: "Indexer_ownStake (Indexer_new a b st) = ownStake (indexerEntity (Indexer_new a b st))"
    "Indexer_delegatedStake (Indexer_new a b st) = delegatedStake (indexerEntity (Indexer_new a b st))"
    "Indexer_allocatedStake (Indexer_new a b st) = allocatedStake (indexerEntity (Indexer_new a b st))"
    by (simp_all add: getter_defs Indexer_new_cached)
  from own del alloc new own2 del2 alloc2 show ?thesis by blast
qed

section \<open>Delegation parameters\<close>

text \<open>
  C9. Handling a delegation-parameters-updated event of block \<open>B\<close> saves a cooldown
  block that is null when the cooldown of the event is zero and \<open>B + N\<close> when the
  cooldown is \<open>N\<close>, non-zero.
\<close>

theorem cooldown_block:
  "\<exists>c' e. handleDelegationParametersUpdated h block indexingRewardCut queryFeeCut n c = Some c' \<and>
     indexerStore (snd c') (Indexer_id (fst c)) = Some e \<and>
     delegatorParameterCooldownBlock e = (if n = 0 then None else Some (number block + n))"
  by (simp add: handleDelegationParametersUpdated_def Let_def split_beta setEntity_def save_def
       snapshot_fst snapshot_indexerStore IndexerEntity_save_def getter_defs
       incrementParametersChangesCount_def snapshot_modify_indexerStore registerUpdate_def)

section \<open>The delegated-stake record\<close>

text \<open>
  C10. The identifier of the record of an indexer and a delegator is the identifier of
  the indexer, a hyphen and the identifier of the delegator. The constructor stores a
  new record with the timestamp of the current block only when none exists under that
  identifier; an existing record is returned as it is and the store is left unchanged,
  so a later load reads the same creation timestamp. \<^verbatim>\<open>isCreatedThisBlock\<close> holds
  exactly when the creation timestamp of the record is the timestamp of the current
  block, which is the case for a record just created.
\<close>

theorem delegatedStake_identity:
  "DelegatedStake_id ie de = entity_id ie @ ''-'' @ delegator_id de \<and>
   (let (d, st') = DelegatedStake_new ie de b st in
      delegatedStakeStore st' (DelegatedStake_id ie de) = Some (delegatedStakeEntity d) \<and>
      isCreatedThisBlock d = (ds_createdAtTimestamp (delegatedStakeEntity d) = timestamp b) \<and>
      (case delegatedStakeStore st (DelegatedStake_id ie de) of
         None \<Rightarrow> ds_id (delegatedStakeEntity d) = DelegatedStake_id ie de \<and>
                 ds_createdAtTimestamp (delegatedStakeEntity d) = timestamp b \<and>
                 isCreatedThisBlock d
       | Some e \<Rightarrow> delegatedStakeEntity d = e \<and> st' = st \<and>
                 isCreatedThisBlock d = (ds_createdAtTimestamp e = timestamp b)) \<and>
      ds_createdAtTimestamp (delegatedStakeEntity (fst (DelegatedStake_new ie de b' st'))) =
        ds_createdAtTimestamp (delegatedStakeEntity d))"
  by (simp add: DelegatedStake_id_def DelegatedStake_new_def initializeDelegatedStakeEntity_def
       isCreatedThisBlock_def Let_def split: option.splits)

section \<open>Handling events from the store\<close>

text \<open>What the constructor reads, and the instances of the examples.\<close>

lemma Indexer_new_id:
  "keyedAt st a \<Longrightarrow> entity_id (indexerEntity (Indexer_new a b st)) = a"
  by (simp add: keyedAt_def Indexer_new_def newIndexerEntity_def split: option.splits)

lemma Indexer_new_ownStake:
  "priv_ownStake (Indexer_new a b st) = persistedOwnStake st a"
  by (simp add: persistedOwnStake_def Indexer_new_def newIndexerEntity_def split: option.splits)

lemma exampleStore_new:
  "indexerEntity (Indexer_new ''0xab'' exampleBlock (exampleStore own del alloc shares cutRatio)) =
     (newIndexerEntity ''0xab'' exampleBlock)
          \<lparr>ownStake := own, delegatedStake := del, allocatedStake := alloc,
           delegationPoolShares := Some shares, indexingRewardCutRatio := Some cutRatio\<rparr>"
  by (simp add: Indexer_new_def exampleStore_def emptyStore_def)

lemma exampleHelpers_tokens:
  "tokenAmountToDecimal exampleHelpers t = of_int t / 10 ^ 18"
  by (simp add: exampleHelpers_def)

lemma Indexer_new_emptyStore:
  "Indexer_new a b emptyStore =
     \<lparr>indexerEntity = newIndexerEntity a b, currentBlock = b, priv_snapshot = None,
      priv_delegatedStake = 0, priv_ownStake = 0, priv_allocatedStake = 0\<rparr>"
  by (simp add: Indexer_new_def emptyStore_def newIndexerEntity_def zeroBD_def)

text \<open>
  \<^verbatim>\<open>handleRewardsAssigned\<close> runs \<^verbatim>\<open>updateDelegatedStake\<close> with the delegators' part of
  the reward and no shares, once the snapshot has recorded that part.
\<close>

lemma handleRewardsAssigned_effect:
  assumes "indexingRewards (fst c) (tokenAmountToDecimal h amount) = Some (i, d)"
  shows "\<exists>c'. handleRewardsAssigned h amount c = Some c' \<and>
     delegatedStake (indexerEntity (fst c')) = priv_delegatedStake (fst c) + d \<and>
     delegationPoolShares (indexerEntity (fst c')) = Some (Indexer_delegationPoolShares (fst c)) \<and>
     indexerStore (snd c') =
       (indexerStore (snd c))(entity_id (indexerEntity (fst c)) \<mapsto> indexerEntity (fst c'))"
proof -
  define k where "k = fst (Indexer_snapshot h c)"
  define cm where "cm = (fst (snd (Indexer_snapshot h c)),
     addDelegationPoolIndexingRewards k d (snd (snd (Indexer_snapshot h c))))"
  have run: "handleRewardsAssigned h amount c = updateDelegatedStake h d zeroBI cm"
    using assms by (simp add: handleRewardsAssigned_def Let_def split_beta cm_def k_def)
  have cm_fst: "fst cm = (fst c)\<lparr>priv_snapshot := Some k\<rparr>"
    by (simp add: cm_def k_def snapshot_fst)
  have cm_store: "indexerStore (snd cm) = indexerStore (snd c)"
    by (simp add: cm_def addDelegationPoolIndexingRewards_def snapshot_modify_indexerStore
        snapshot_indexerStore)
  show ?thesis
    unfolding run
    using updateDelegatedStake_effect [of h d zeroBI cm]
    by (auto simp add: cm_fst cm_store getter_defs)
qed

text \<open>A deposit or a lock, handled by a new instance, adds its signed amount.\<close>

lemma processEvent_ownStake:
  assumes "keyedAt st a" and "isStakeDepositedOrLocked ev"
  shows "\<exists>st'. processEvent h a ev st = Some st' \<and> keyedAt st' a \<and>
           persistedOwnStake st' a = persistedOwnStake st a + signedDelta h ev"
proof -
  have upd: "\<exists>st'. map_option snd (updateOwnStake h d (Indexer_new a b st, st)) = Some st' \<and>
      keyedAt st' a \<and> persistedOwnStake st' a = persistedOwnStake st a + d" for d b
  proof -
    obtain c' where c': "updateOwnStake h d (Indexer_new a b st, st) = Some c'"
      "entity_id (indexerEntity (fst c')) = entity_id (indexerEntity (fst (Indexer_new a b st, st)))"
      "ownStake (indexerEntity (fst c')) = priv_ownStake (fst (Indexer_new a b st, st)) + d"
      "indexerStore (snd c') = (indexerStore (snd (Indexer_new a b st, st)))
          (entity_id (indexerEntity (fst (Indexer_new a b st, st))) \<mapsto> indexerEntity (fst c'))"
      using updateOwnStake_effect [of h d "(Indexer_new a b st, st)"] by blast
    then show ?thesis
      using assms(1)
      by (simp add: Indexer_new_id Indexer_new_ownStake keyedAt_def persistedOwnStake_def)
  qed
  show ?thesis
  proof (cases ev)
    case (StakeDeposited b t)
    then show ?thesis using upd [of "tokenAmountToDecimal h t" b]
      by (simp add: processEvent_def handleStakeDeposited_def)
  next
    case (StakeLocked b t)
    then show ?thesis using upd [of "- tokenAmountToDecimal h t" b]
      by (simp add: processEvent_def handleStakeLocked_def)
  qed (use assms(2) in simp_all)
qed

section \<open>Rewards\<close>

text \<open>
  C3. A rewards-assigned event of total reward \<open>R\<close> is handled by an instance built
  from the store. When the delegated stake is zero the indexer's part is \<open>R\<close>, the
  delegators' part is zero, and the saved delegated stake and pool shares are the ones
  read. Otherwise, with a reward cut set, the indexer's part is \<open>R\<close> times the cut, the
  delegators' part is \<open>R\<close> minus the indexer's part, the two add up to \<open>R\<close> for every
  cut, the saved delegated stake grows by the delegators' part and the saved pool shares
  are the ones read.
\<close>

theorem rewards_split:
  "(Indexer_delegatedStake (Indexer_new address b st) = 0 \<longrightarrow>
      indexingRewards (Indexer_new address b st) (tokenAmountToDecimal h amount) =
        Some (tokenAmountToDecimal h amount, 0) \<and>
      (\<exists>c' e. handleRewardsAssigned h amount (Indexer_new address b st, st) = Some c' \<and>
         indexerStore (snd c') (Indexer_id (Indexer_new address b st)) = Some e \<and>
         delegatedStake e = delegatedStake (indexerEntity (Indexer_new address b st)) \<and>
         delegationPoolShares e = Some (Indexer_delegationPoolShares (Indexer_new address b st)))) \<and>
   (Indexer_delegatedStake (Indexer_new address b st) \<noteq> 0 \<and>
    indexingRewardCutRatio (indexerEntity (Indexer_new address b st)) = Some cutRatio \<longrightarrow>
      (\<exists>indexerShare delegatorShare.
         indexingRewards (Indexer_new address b st) (tokenAmountToDecimal h amount) =
           Some (indexerShare, delegatorShare) \<and>
         indexerShare = tokenAmountToDecimal h amount * cutRatio \<and>
         delegatorShare = tokenAmountToDecimal h amount - indexerShare \<and>
         indexerShare + delegatorShare = tokenAmountToDecimal h amount \<and>
         (\<exists>c' e. handleRewardsAssigned h amount (Indexer_new address b st, st) = Some c' \<and>
            indexerStore (snd c') (Indexer_id (Indexer_new address b st)) = Some e \<and>
            delegatedStake e =
              delegatedStake (indexerEntity (Indexer_new address b st)) + delegatorShare \<and>
            delegationPoolShares e =
              Some (Indexer_delegationPoolShares (Indexer_new address b st)))))"
proof (intro conjI impI)
  let ?ix = "Indexer_new address b st"
  let ?R = "tokenAmountToDecimal h amount"
  assume z: "Indexer_delegatedStake ?ix = 0"
  then show "indexingRewards ?ix ?R = Some (?R, 0)"
    by (simp add: indexingRewards_def zeroBD_def)
  then have "indexingRewards (fst (?ix, st)) ?R = Some (?R, 0)" by simp
  from handleRewardsAssigned_effect [OF this]
  show "\<exists>c' e. handleRewardsAssigned h amount (?ix, st) = Some c' \<and>
         indexerStore (snd c') (Indexer_id ?ix) = Some e \<and>
         delegatedStake e = delegatedStake (indexerEntity ?ix) \<and>
         delegationPoolShares e = Some (Indexer_delegationPoolShares ?ix)"
    by (auto simp add: Indexer_id_def Indexer_new_cached)
next
  let ?ix = "Indexer_new address b st"
  let ?R = "tokenAmountToDecimal h amount"
  assume nz: "Indexer_delegatedStake ?ix \<noteq> 0 \<and> indexingRewardCutRatio (indexerEntity ?ix) = Some cutRatio"
  then have split: "indexingRewards ?ix ?R = Some (?R * cutRatio, ?R - ?R * cutRatio)"
    by (simp add: indexingRewards_def zeroBD_def Let_def)
  then have "indexingRewards (fst (?ix, st)) ?R = Some (?R * cutRatio, ?R - ?R * cutRatio)" by simp
  from handleRewardsAssigned_effect [OF this]
  have "\<exists>c' e. handleRewardsAssigned h amount (?ix, st) = Some c' \<and>
            indexerStore (snd c') (Indexer_id ?ix) = Some e \<and>
            delegatedStake e = delegatedStake (indexerEntity ?ix) + (?R - ?R * cutRatio) \<and>
            delegationPoolShares e = Some (Indexer_delegationPoolShares ?ix)"
    by (auto simp add: Indexer_id_def Indexer_new_cached)
  with split show "\<exists>indexerShare delegatorShare.
         indexingRewards ?ix ?R = Some (indexerShare, delegatorShare) \<and>
         indexerShare = ?R * cutRatio \<and>
         delegatorShare = ?R - indexerShare \<and>
         indexerShare + delegatorShare = ?R \<and>
         (\<exists>c' e. handleRewardsAssigned h amount (?ix, st) = Some c' \<and>
            indexerStore (snd c') (Indexer_id ?ix) = Some e \<and>
            delegatedStake e = delegatedStake (indexerEntity ?ix) + delegatorShare \<and>
            delegationPoolShares e = Some (Indexer_delegationPoolShares ?ix))"
    by simp
qed

theorem rewards_split_witness:
  "Indexer_delegatedStake (Indexer_new ''0xab'' exampleBlock (exampleStore 100 0 0 1 (1 / 5))) = 0 \<and>
   indexingRewards (Indexer_new ''0xab'' exampleBlock (exampleStore 100 0 0 1 (1 / 5)))
       (tokenAmountToDecimal exampleHelpers (50 * 10 ^ 18)) = Some (50, 0) \<and>
   (\<exists>c' e. handleRewardsAssigned exampleHelpers (50 * 10 ^ 18)
         (Indexer_new ''0xab'' exampleBlock (exampleStore 100 0 0 1 (1 / 5)),
          exampleStore 100 0 0 1 (1 / 5)) = Some c' \<and>
      indexerStore (snd c') ''0xab'' = Some e \<and>
      delegatedStake e = 0 \<and> delegationPoolShares e = Some 1) \<and>
   Indexer_delegatedStake (Indexer_new ''0xab'' exampleBlock (exampleStore 100 400 0 400 (1 / 5))) \<noteq> 0 \<and>
   indexingRewardCutRatio (indexerEntity
       (Indexer_new ''0xab'' exampleBlock (exampleStore 100 400 0 400 (1 / 5)))) = Some (1 / 5) \<and>
   indexingRewards (Indexer_new ''0xab'' exampleBlock (exampleStore 100 400 0 400 (1 / 5)))
       (tokenAmountToDecimal exampleHelpers (100 * 10 ^ 18)) = Some (20, 80) \<and>
   (\<exists>c' e. handleRewardsAssigned exampleHelpers (100 * 10 ^ 18)
         (Indexer_new ''0xab'' exampleBlock (exampleStore 100 400 0 400 (1 / 5)),
          exampleStore 100 400 0 400 (1 / 5)) = Some c' \<and>
      indexerStore (snd c') ''0xab'' = Some e \<and>
      delegatedStake e = 480 \<and> delegationPoolShares e = Some 400)"
  using rewards_split [of "''0xab''" exampleBlock "exampleStore 100 0 0 1 (1 / 5)"
          exampleHelpers "50 * 10 ^ 18" "1 / 5"]
        rewards_split [of "''0xab''" exampleBlock "exampleStore 100 400 0 400 (1 / 5)"
          exampleHelpers "100 * 10 ^ 18" "1 / 5"]
  by (simp add: exampleStore_new getter_defs Indexer_new_cached newIndexerEntity_def
        exampleHelpers_def)




section \<open>Own stake over a stream of deposits and locks\<close>

text \<open>
  C4. After any sequence of stake-deposited and stake-locked events of one indexer, each
  handled by an instance built from the store, every event is handled and the own stake
  in the store is the one before the sequence (zero for an indexer not saved yet) plus
  the sum of the signed amounts: plus the amount of a deposit, minus the amount of a
  lock.
\<close>

theorem ownStake_sums_signed_deltas:
  assumes "list_all isStakeDepositedOrLocked evs" and "keyedAt st address"
  shows "\<exists>st'. processEvents h address evs st = Some st' \<and>
           persistedOwnStake st' address =
             persistedOwnStake st address + sum_list (map (signedDelta h) evs)"
  using assms
proof (induction evs arbitrary: st)
  case Nil
  then show ?case by simp
next
  case (Cons ev evs)
  then obtain st1 where st1: "processEvent h address ev st = Some st1" "keyedAt st1 address"
      "persistedOwnStake st1 address = persistedOwnStake st address + signedDelta h ev"
    using processEvent_ownStake [of st address ev h] by auto
  from Cons.IH [OF _ st1(2)] Cons.prems(1)
  obtain st' where "processEvents h address evs st1 = Some st'"
    "persistedOwnStake st' address = persistedOwnStake st1 address + sum_list (map (signedDelta h) evs)"
    by auto
  with st1 show ?case by simp
qed

theorem ownStake_sums_signed_deltas_witness:
  "list_all isStakeDepositedOrLocked
     [StakeDeposited exampleBlock (5 * 10 ^ 18), StakeLocked exampleBlock (2 * 10 ^ 18),
      StakeDeposited exampleBlock (10 ^ 18)] \<and>
   keyedAt emptyStore ''0xab'' \<and>
   (\<exists>st'. processEvents exampleHelpers ''0xab''
       [StakeDeposited exampleBlock (5 * 10 ^ 18), StakeLocked exampleBlock (2 * 10 ^ 18),
        StakeDeposited exampleBlock (10 ^ 18)] emptyStore = Some st' \<and>
      persistedOwnStake st' ''0xab'' = 4)"
  using ownStake_sums_signed_deltas [of
     "[StakeDeposited exampleBlock (5 * 10 ^ 18), StakeLocked exampleBlock (2 * 10 ^ 18),
       StakeDeposited exampleBlock (10 ^ 18)]" emptyStore "''0xab''" exampleHelpers]
  by (simp add: keyedAt_def emptyStore_def persistedOwnStake_def exampleHelpers_def zeroBD_def)

section \<open>Derived fields saved by the mutators\<close>

text \<open>
  C1. The specification asks that the saved \<^verbatim>\<open>maximumDelegation\<close> be sixteen times
  the saved \<^verbatim>\<open>ownStake\<close> after every mutator. \<^verbatim>\<open>updateOwnStake\<close> assigns the new own stake to
  the entity and then reads \<^verbatim>\<open>maximumDelegation\<close> from the getter, which multiplies the
  own stake cached by the constructor. A deposit of 5 tokens to a new indexer saves
  own stake 5 with maximum delegation 0, not 80.
\<close>

theorem deposit_saves_stale_maximumDelegation:
  "\<exists>c e. handleStakeDeposited exampleHelpers (5 * 10 ^ 18)
             (Indexer_new ''0xab'' exampleBlock emptyStore, emptyStore) = Some c \<and>
     indexerStore (snd c) ''0xab'' = Some e \<and> ownStake e = 5 \<and> maximumDelegation e = 0"
proof -
  let ?c = "(Indexer_new ''0xab'' exampleBlock emptyStore, emptyStore)"
  obtain c' where c': "updateOwnStake exampleHelpers 5 ?c = Some c'"
      "ownStake (indexerEntity (fst c')) = priv_ownStake (fst ?c) + 5"
      "maximumDelegation (indexerEntity (fst c')) = priv_ownStake (fst ?c) * 16"
      "indexerStore (snd c') =
         (indexerStore (snd ?c))(entity_id (indexerEntity (fst ?c)) \<mapsto> indexerEntity (fst c'))"
    using updateOwnStake_effect [of exampleHelpers 5 ?c] by blast
  then show ?thesis
    by (simp add: handleStakeDeposited_def exampleHelpers_tokens
        Indexer_new_emptyStore newIndexerEntity_def)
qed

text \<open>
  C2. The specification asks that the saved \<^verbatim>\<open>isOverDelegated\<close> tell whether the saved
  delegated stake exceeds the saved maximum delegation. \<^verbatim>\<open>updateDelegatedStake\<close> assigns the new
  delegated stake to the entity and then reads \<^verbatim>\<open>isOverDelegated\<close> from the getter,
  which compares the stakes cached by the constructor. A deposit of 1 token followed by a
  delegation of 100 tokens saves delegated stake 100 with own stake 1 and maximum
  delegation 0, and \<^verbatim>\<open>isOverDelegated\<close> false.
\<close>

theorem delegation_saves_stale_isOverDelegated:
  "\<exists>c1 c2 e.
     handleStakeDeposited exampleHelpers (10 ^ 18)
       (Indexer_new ''0xab'' exampleBlock emptyStore, emptyStore) = Some c1 \<and>
     handleStakeDelegated exampleHelpers (100 * 10 ^ 18) 100
       (Indexer_new ''0xab'' exampleBlock (snd c1), snd c1) = Some c2 \<and>
     indexerStore (snd c2) ''0xab'' = Some e \<and> ownStake e = 1 \<and> delegatedStake e = 100 \<and>
     maximumDelegation e = 0 \<and> isOverDelegated e = False"
proof -
  let ?c = "(Indexer_new ''0xab'' exampleBlock emptyStore, emptyStore)"
  obtain c1 where c1: "updateOwnStake exampleHelpers 1 ?c = Some c1"
      "entity_id (indexerEntity (fst c1)) = entity_id (indexerEntity (fst ?c))"
      "ownStake (indexerEntity (fst c1)) = priv_ownStake (fst ?c) + 1"
      "maximumDelegation (indexerEntity (fst c1)) = priv_ownStake (fst ?c) * 16"
      "delegatedStake (indexerEntity (fst c1)) = delegatedStake (indexerEntity (fst ?c))"
      "indexerStore (snd c1) =
         (indexerStore (snd ?c))(entity_id (indexerEntity (fst ?c)) \<mapsto> indexerEntity (fst c1))"
    using updateOwnStake_effect [of exampleHelpers 1 ?c] by blast
  have c1s: "entity_id (indexerEntity (fst c1)) = ''0xab''"
      "ownStake (indexerEntity (fst c1)) = 1"
      "maximumDelegation (indexerEntity (fst c1)) = 0"
      "delegatedStake (indexerEntity (fst c1)) = 0"
      "indexerStore (snd c1) ''0xab'' = Some (indexerEntity (fst c1))"
    using c1(2-6)
    by (simp_all add: Indexer_new_emptyStore newIndexerEntity_def zeroBD_def)
  have first: "handleStakeDeposited exampleHelpers (10 ^ 18) ?c = Some c1"
    using c1(1) by (simp add: handleStakeDeposited_def exampleHelpers_tokens)
  let ?d = "(Indexer_new ''0xab'' exampleBlock (snd c1), snd c1)"
  have loaded: "indexerEntity (fst ?d) = indexerEntity (fst c1)"
    "priv_ownStake (fst ?d) = 1" "priv_delegatedStake (fst ?d) = 0"
    by (simp_all add: Indexer_new_def Let_def c1s)
  obtain c2 where c2: "updateDelegatedStake exampleHelpers 100 100 ?d = Some c2"
      "delegatedStake (indexerEntity (fst c2)) = priv_delegatedStake (fst ?d) + 100"
      "isOverDelegated (indexerEntity (fst c2)) =
         (priv_ownStake (fst ?d) * 16 < priv_delegatedStake (fst ?d))"
      "maximumDelegation (indexerEntity (fst c2)) = maximumDelegation (indexerEntity (fst ?d))"
      "ownStake (indexerEntity (fst c2)) = ownStake (indexerEntity (fst ?d))"
      "indexerStore (snd c2) =
         (indexerStore (snd ?d))(entity_id (indexerEntity (fst ?d)) \<mapsto> indexerEntity (fst c2))"
    using updateDelegatedStake_effect [of exampleHelpers 100 100 ?d] by blast
  have second: "handleStakeDelegated exampleHelpers (100 * 10 ^ 18) 100 ?d = Some c2"
    using c2(1) by (simp add: handleStakeDelegated_def exampleHelpers_tokens Let_def)
  have c2s: "indexerStore (snd c2) ''0xab'' = Some (indexerEntity (fst c2))"
      "ownStake (indexerEntity (fst c2)) = 1"
      "delegatedStake (indexerEntity (fst c2)) = 100"
      "maximumDelegation (indexerEntity (fst c2)) = 0"
      "isOverDelegated (indexerEntity (fst c2)) = False"
    using c2(2-6) unfolding loaded by (simp_all add: c1s)
  show ?thesis
    using first second c2s by blast
qed

end
